theory Spec2Isabelle
  imports Complex_Main "HOL-Library.Word"
begin

section \<open>FreeRTOS primitives called by app.c\<close>

text \<open>
  The tasks of app.c talk to each other through three binary semaphores, one
  FreeRTOS queue of length 1 (\<open>queue_mpu\<close>) and the buffer queue. The update functions
  are modelled as atomic steps: tasks interleave between calls of the update functions,
  and a blocking call whose resource is not available returns its time-out result.
  The one wait that another task is expected to end while the caller is blocked, the
  wait for the Bluetooth reply, takes an argument saying whether the semaphore is given
  during the wait.
\<close>

type_synonym byte = "8 word"

type_synonym vec3 = "real \<times> real \<times> real"

record 'a queue =
  uxLength :: nat
  items :: "'a list"

text \<open>\<open>xQueueCreate(uxQueueLength, uxItemSize)\<close>: an empty queue holding at most
  \<open>uxQueueLength\<close> items.\<close>

definition xQueueCreate :: "nat \<Rightarrow> 'a queue" where
  "xQueueCreate n = \<lparr>uxLength = n, items = []\<rparr>"

text \<open>\<open>xQueueSendToBack(q, item, 0)\<close>: with a block time of 0 the item is copied to the
  back of the queue when there is room (\<open>pdPASS\<close>, here \<open>True\<close>); on a full queue the call
  returns \<open>errQUEUE_FULL\<close> (here \<open>False\<close>) at once and the queue keeps its contents.\<close>

definition xQueueSendToBack :: "'a queue \<Rightarrow> 'a \<Rightarrow> bool \<times> 'a queue" where
  "xQueueSendToBack q v =
     (if length (items q) < uxLength q then (True, q\<lparr>items := items q @ [v]\<rparr>)
      else (False, q))"

text \<open>\<open>xQueueReceive(q, buf, 0)\<close>: removes the item at the front, or fails at once on an
  empty queue.\<close>

definition xQueueReceive :: "'a queue \<Rightarrow> 'a option \<times> 'a queue" where
  "xQueueReceive q =
     (case items q of
        [] \<Rightarrow> (None, q)
      | v # vs \<Rightarrow> (Some v, q\<lparr>items := vs\<rparr>))"

text \<open>A binary semaphore is \<open>True\<close> when it is available. It is created empty.\<close>

definition xSemaphoreCreateBinary :: bool where
  "xSemaphoreCreateBinary = False"

definition xSemaphoreGive :: "bool \<Rightarrow> bool" where
  "xSemaphoreGive s = True"

text \<open>\<open>xSemaphoreTake(s, ticks)\<close>: succeeds when the semaphore is available, or is given
  by another task before the wait ends (\<open>given\<close>; \<open>False\<close> for a block time of 0).
  Returns the result and the semaphore afterwards.\<close>

definition xSemaphoreTake :: "bool \<Rightarrow> bool \<Rightarrow> bool \<times> bool" where
  "xSemaphoreTake s given = (s \<or> given, False)"

section \<open>The buffer queue\<close>

text \<open>
  Modelled from the spec: the module \<open>buffer_queue\<close> (\<open>buffer_queue_init\<close>,
  \<open>buffer_queue_get_avail\<close>, \<open>buffer_queue_push\<close>, \<open>buffer_queue_get_inuse\<close>,
  \<open>buffer_queue_return\<close>) is not among the sources. The spec's Buffer Pool (4.1) has N
  buffers, identified by their slot index, each in exactly one of the sets Free, Queued
  (FIFO), CheckedOutProducer and CheckedOutConsumer:
  \<^item> \<open>acquire_free\<close> removes a buffer from Free and moves it to CheckedOutProducer,
    or returns none;
  \<^item> \<open>enqueue_full\<close> moves a CheckedOutProducer buffer to Queued, and fails if the
    buffer is not checked out by the producer;
  \<^item> \<open>acquire_full\<close> removes the oldest buffer from Queued and moves it to
    CheckedOutConsumer, or returns none;
  \<^item> \<open>release\<close> moves a CheckedOutConsumer buffer back to Free.
  Free is kept as a list, taken from the front and returned at the back. A buffer pointer
  of the C code is \<open>Some slot\<close>, and \<open>NULL\<close> is \<open>None\<close>.
\<close>

record buffer_queue =
  bq_free :: "nat list"
  bq_queued :: "nat list"
  bq_producer :: "nat set"
  bq_consumer :: "nat set"

definition buffer_queue_init :: "nat \<Rightarrow> buffer_queue" where
  "buffer_queue_init nmbr =
     \<lparr>bq_free = [0..<nmbr], bq_queued = [], bq_producer = {}, bq_consumer = {}\<rparr>"

definition buffer_queue_get_avail :: "buffer_queue \<Rightarrow> nat option \<times> buffer_queue" where
  "buffer_queue_get_avail q =
     (case bq_free q of
        [] \<Rightarrow> (None, q)
      | b # bs \<Rightarrow> (Some b, q\<lparr>bq_free := bs, bq_producer := insert b (bq_producer q)\<rparr>))"

definition buffer_queue_push :: "buffer_queue \<Rightarrow> nat \<Rightarrow> buffer_queue" where
  "buffer_queue_push q b =
     (if b \<in> bq_producer q
      then q\<lparr>bq_producer := bq_producer q - {b}, bq_queued := bq_queued q @ [b]\<rparr>
      else q)"

definition buffer_queue_get_inuse :: "buffer_queue \<Rightarrow> nat option \<times> buffer_queue" where
  "buffer_queue_get_inuse q =
     (case bq_queued q of
        [] \<Rightarrow> (None, q)
      | b # bs \<Rightarrow> (Some b, q\<lparr>bq_queued := bs, bq_consumer := insert b (bq_consumer q)\<rparr>))"

definition buffer_queue_return :: "buffer_queue \<Rightarrow> nat \<Rightarrow> buffer_queue" where
  "buffer_queue_return q b =
     (if b \<in> bq_consumer q
      then q\<lparr>bq_consumer := bq_consumer q - {b}, bq_free := bq_free q @ [b]\<rparr>
      else q)"

section \<open>Application state\<close>

text \<open>
  Modelled from the spec: the debouncer module is not among the sources. Of a debounced
  input \<open>config_update\<close> reads the stabilised state (\<open>debouncer_is_hi\<close>) and the edge flag
  (\<open>debouncer_is_edge\<close>); \<open>debouncer_update\<close> polls the pin, so the state it leaves is an
  input of the model.
\<close>

record debouncer =
  db_hi :: bool
  db_edge :: bool

definition debouncer_is_edge :: "debouncer \<Rightarrow> bool" where
  "debouncer_is_edge d = db_edge d"

definition debouncer_is_hi :: "debouncer \<Rightarrow> bool" where
  "debouncer_is_hi d = db_hi d"

record config_type =
  sample_period :: int

datatype led = LED_1 | LED_2 | LED_3

datatype semaphore = Sem_config | Sem_error | Sem_reply

text \<open>
  The calls app.c makes to its collaborators are recorded, in program order, in a trace:
  \<open>bluetooth_write\<close> with the value of its argument expression, \<open>Board_LED_Set\<close>,
  \<open>config_write\<close> with the sample period of the configuration it is given,
  \<open>messages_print\<close>, \<open>xSemaphoreGive\<close>, \<open>buffer_queue_push\<close>, \<open>buffer_queue_return\<close>, and
  the store \<open>buf[i] = sample\<close> of \<open>adc_update\<close> with the slot, the index and the byte.
\<close>

datatype event =
    Bluetooth_write real
  | Board_LED_Set led bool
  | Config_write int
  | Messages_print string
  | Semaphore_give semaphore
  | Buffer_push nat
  | Buffer_return nat
  | Buffer_store nat nat byte

text \<open>
  \<open>app_type\<close> is declared in app.h, which is not among the sources; the record has the
  fields app.c uses (\<open>app_config\<close> is its field \<open>config\<close>). \<open>buffer_queue_mem\<close> is the
  static array of app.c that the buffer queue is built on: slot \<open>b\<close> of a queue of
  buffers of size \<open>n\<close> is the slice starting at \<open>b * n\<close>. The \<open>float\<close> values are modelled as reals; an 8-bit sample is exactly
  representable, and so is its product with 0.
\<close>

record app_type =
  accel :: vec3
  queue_mpu :: "vec3 queue"
  data_queue :: buffer_queue
  buffer_queue_mem :: "byte list"
  current_buffer :: "nat option"
  samples_in_buffer :: nat
  app_config :: config_type
  config_sd_present :: bool
  semaphore_config :: bool
  semaphore_error :: bool
  semaphore_reply :: bool
  button_left :: debouncer
  button_right :: debouncer
  button_up :: debouncer
  button_down :: debouncer
  trace :: "event list"

definition emit :: "event \<Rightarrow> app_type \<Rightarrow> app_type" where
  "emit e app = app\<lparr>trace := trace app @ [e]\<rparr>"

definition DBG_PERIOD_MULTIPLIER :: int where
  "DBG_PERIOD_MULTIPLIER = 1"

section \<open>The update functions of app.c\<close>

text \<open>
  The constants \<open>APP_DATA_BUF_SIZE\<close>, \<open>APP_DATA_BUF_NMBR\<close>, \<open>APP_ADC_MAX_RATE\<close> and
  \<open>APP_ADC_MIN_RATE\<close> of app.h and the macro \<open>pdMS_TO_TICKS\<close> are parameters
  (\<open>SIZE\<close>, \<open>NMBR\<close>, \<open>MAX_RATE\<close>, \<open>MIN_RATE\<close>, \<open>ms_to_ticks\<close>).
\<close>

text \<open>The loop of \<open>app_update\<close> over the buffer:
  \<open>for (i = 0; i < APP_DATA_BUF_SIZE; ++i) bluetooth_write(buf[i] * mult)\<close>. The product is
  the real one; the code rounds it to a \<open>float\<close>, so the recorded value is that of the code
  only where the product is exact, as it is for the scale 0. The theorems below state
  forwarded values for the scale 0 only, and otherwise count the writes.\<close>

definition forward_buffer :: "nat \<Rightarrow> nat \<Rightarrow> real \<Rightarrow> app_type \<Rightarrow> app_type" where
  "forward_buffer SIZE b mult app =
     foldl (\<lambda>a i. emit (Bluetooth_write
                        (real (unat (buffer_queue_mem a ! (b * SIZE + i))) * mult)) a)
       app [0..<SIZE]"

text \<open>\<open>app_update\<close>: \<open>ack\<close> says whether \<open>semaphore_reply\<close> is given during the wait.\<close>

definition app_update :: "nat \<Rightarrow> bool \<Rightarrow> app_type \<Rightarrow> app_type" where
  "app_update SIZE ack app =
     (let (new_accel, qm) = xQueueReceive (queue_mpu app);
          app1 = (case new_accel of
                    Some v \<Rightarrow> app\<lparr>queue_mpu := qm, accel := v\<rparr>
                  | None \<Rightarrow> app\<lparr>queue_mpu := qm\<rparr>);
          (buf, dq) = buffer_queue_get_inuse (data_queue app1);
          app2 = app1\<lparr>data_queue := dq\<rparr>
      in case buf of
           Some b \<Rightarrow>
             (let mult = fst (accel app2);
                  app3 = forward_buffer SIZE b mult app2;
                  app4 = emit (Buffer_return b)
                           (app3\<lparr>data_queue := buffer_queue_return (data_queue app3) b\<rparr>);
                  (taken, s) = xSemaphoreTake (semaphore_reply app4) ack;
                  app5 = app4\<lparr>semaphore_reply := s\<rparr>
              in if \<not> taken
                 then emit (Semaphore_give Sem_error)
                        (app5\<lparr>semaphore_error := xSemaphoreGive (semaphore_error app5)\<rparr>)
                 else app5)
         | None \<Rightarrow> app2)"

text \<open>The two parts of \<open>app_update\<close>, for a consumer that is held up while it has a buffer
  checked out: \<open>app_update_acquire\<close> is the function up to the return of
  \<open>buffer_queue_get_inuse\<close>, \<open>app_update_forward\<close> the rest of it.\<close>

definition app_update_acquire :: "app_type \<Rightarrow> nat option \<times> app_type" where
  "app_update_acquire app =
     (let (new_accel, qm) = xQueueReceive (queue_mpu app);
          app1 = (case new_accel of
                    Some v \<Rightarrow> app\<lparr>queue_mpu := qm, accel := v\<rparr>
                  | None \<Rightarrow> app\<lparr>queue_mpu := qm\<rparr>);
          (buf, dq) = buffer_queue_get_inuse (data_queue app1)
      in (buf, app1\<lparr>data_queue := dq\<rparr>))"

definition app_update_forward :: "nat \<Rightarrow> bool \<Rightarrow> nat option \<Rightarrow> app_type \<Rightarrow> app_type" where
  "app_update_forward SIZE ack buf app2 =
     (case buf of
        Some b \<Rightarrow>
          (let mult = fst (accel app2);
               app3 = forward_buffer SIZE b mult app2;
               app4 = emit (Buffer_return b)
                        (app3\<lparr>data_queue := buffer_queue_return (data_queue app3) b\<rparr>);
               (taken, s) = xSemaphoreTake (semaphore_reply app4) ack;
               app5 = app4\<lparr>semaphore_reply := s\<rparr>
           in if \<not> taken
              then emit (Semaphore_give Sem_error)
                     (app5\<lparr>semaphore_error := xSemaphoreGive (semaphore_error app5)\<rparr>)
              else app5)
      | None \<Rightarrow> app2)"

text \<open>\<open>adc_update\<close>: \<open>sample\<close> is the byte that \<open>adc_read(APP_ADC_CHANNEL)\<close> stores when
  it is called in this iteration.\<close>

definition adc_update :: "nat \<Rightarrow> byte \<Rightarrow> app_type \<Rightarrow> app_type" where
  "adc_update SIZE sample app =
     (let (buf, app1) =
            (case current_buffer app of
               None \<Rightarrow>
                 (let (b1, q1) = buffer_queue_get_avail (data_queue app);
                      (b2, a2) =
                        (case b1 of
                           None \<Rightarrow>
                             (let (b', q') = buffer_queue_get_inuse q1
                              in case b' of
                                   Some b \<Rightarrow>
                                     (None, emit (Buffer_return b)
                                        (app\<lparr>data_queue := buffer_queue_return q' b\<rparr>))
                                 | None \<Rightarrow> (None, app\<lparr>data_queue := q'\<rparr>))
                         | Some b \<Rightarrow> (Some b, app\<lparr>data_queue := q1\<rparr>))
                  in (b2, a2\<lparr>samples_in_buffer := 0, current_buffer := b2\<rparr>))
             | Some b \<Rightarrow> (Some b, app))
      in case buf of
           None \<Rightarrow> app1
         | Some b \<Rightarrow>
             (let i = samples_in_buffer app1;
                  app2 = emit (Buffer_store b i sample)
                           (app1\<lparr>buffer_queue_mem :=
                                    (buffer_queue_mem app1)[b * SIZE + i := sample],
                                  samples_in_buffer := i + 1\<rparr>)
              in if samples_in_buffer app2 = SIZE
                 then emit (Buffer_push b)
                        (app2\<lparr>data_queue := buffer_queue_push (data_queue app2) b,
                               current_buffer := None\<rparr>)
                 else app2))"

text \<open>\<open>bluetooth_update\<close>: \<open>rx\<close> is the byte \<open>bluetooth_read\<close> delivers, if any.\<close>

definition bluetooth_update :: "byte option \<Rightarrow> app_type \<Rightarrow> app_type" where
  "bluetooth_update rx app =
     (case rx of
        Some d \<Rightarrow> emit (Semaphore_give Sem_reply)
                    (app\<lparr>semaphore_reply := xSemaphoreGive (semaphore_reply app)\<rparr>)
      | None \<Rightarrow> app)"

text \<open>\<open>buttons_update\<close>: the four debouncers after \<open>debouncer_update\<close> has polled the pins.\<close>

definition buttons_update ::
  "debouncer \<times> debouncer \<times> debouncer \<times> debouncer \<Rightarrow> app_type \<Rightarrow> app_type" where
  "buttons_update polled app =
     (case polled of (l, r, u, d) \<Rightarrow>
        app\<lparr>button_left := l, button_right := r, button_up := u, button_down := d\<rparr>)"

text \<open>\<open>config_update\<close>: \<open>write_failed\<close> says whether \<open>config_write\<close>, when it is called,
  returns a negative value.\<close>

definition config_update :: "int \<Rightarrow> int \<Rightarrow> bool \<Rightarrow> app_type \<Rightarrow> app_type" where
  "config_update MAX_RATE MIN_RATE write_failed app =
     (let (m1, app1) =
            (if debouncer_is_edge (button_left app)
             then (if debouncer_is_hi (button_left app)
                   then (- 1, emit (Board_LED_Set LED_3 False) app)
                   else (0, emit (Board_LED_Set LED_3 True) app))
             else (0 :: int, app));
          (modify_sample_rate, app2) =
            (if debouncer_is_edge (button_right app1)
             then (if debouncer_is_hi (button_right app1)
                   then (1, emit (Board_LED_Set LED_3 False) app1)
                   else (m1, emit (Board_LED_Set LED_3 True) app1))
             else (m1, app1))
      in if modify_sample_rate \<noteq> 0
         then
           (let app3 = (if modify_sample_rate > 0 \<and> sample_period (app_config app2) < MAX_RATE
                        then app2\<lparr>app_config := (app_config app2)
                                 \<lparr>sample_period := sample_period (app_config app2) + 1\<rparr>\<rparr>
                        else app2);
                app4 = (if modify_sample_rate < 0 \<and> sample_period (app_config app3) > MIN_RATE
                        then app3\<lparr>app_config := (app_config app3)
                                 \<lparr>sample_period := sample_period (app_config app3) - 1\<rparr>\<rparr>
                        else app3);
                app5 = (if config_sd_present app4
                        then (let a = emit (Config_write (sample_period (app_config app4))) app4
                              in if write_failed
                                 then emit (Messages_print
                                        (''ERROR: escribir el archivo de configuracion''
                                           @ [CHR 0x0A, CHR 0x0D])) a
                                 else a)
                        else app4)
            in emit (Semaphore_give Sem_config)
                 (app5\<lparr>semaphore_config := xSemaphoreGive (semaphore_config app5)\<rparr>))
         else app2)"

definition app_init :: "nat \<Rightarrow> app_type \<Rightarrow> app_type" where
  "app_init NMBR app =
     app\<lparr>app_config := (app_config app)\<lparr>sample_period := 0\<rparr>,
         accel := (0, 0, 0),
         semaphore_config := xSemaphoreCreateBinary,
         semaphore_error := xSemaphoreCreateBinary,
         semaphore_reply := xSemaphoreCreateBinary,
         queue_mpu := xQueueCreate 1,
         data_queue := buffer_queue_init NMBR\<rparr>"

section \<open>The task loops\<close>

text \<open>One iteration of each task's \<open>while (1)\<close> loop. The local variable \<open>xTaskDelay\<close> of
  \<open>vTaskADC\<close> is carried next to the application state.\<close>

definition vTaskADC_start :: "app_type \<Rightarrow> app_type" where
  "vTaskADC_start app = app\<lparr>current_buffer := None\<rparr>"

definition vTaskADC_reload :: "(int \<Rightarrow> nat) \<Rightarrow> app_type \<times> nat \<Rightarrow> app_type \<times> nat" where
  "vTaskADC_reload ms_to_ticks st =
     (case st of (app, xTaskDelay) \<Rightarrow>
        (let (taken, s) = xSemaphoreTake (semaphore_config app) False;
             app1 = app\<lparr>semaphore_config := s\<rparr>
         in if taken
            then (app1, ms_to_ticks ((sample_period (app_config app1) + 1) * 10
                                        * DBG_PERIOD_MULTIPLIER))
            else (app1, xTaskDelay)))"

definition vTaskADC_body ::
  "nat \<Rightarrow> (int \<Rightarrow> nat) \<Rightarrow> byte \<Rightarrow> app_type \<times> nat \<Rightarrow> app_type \<times> nat" where
  "vTaskADC_body SIZE ms_to_ticks sample st =
     (case st of (app, xTaskDelay) \<Rightarrow>
        vTaskADC_reload ms_to_ticks (adc_update SIZE sample app, xTaskDelay))"

definition vTaskConfig_body ::
  "int \<Rightarrow> int \<Rightarrow> (debouncer \<times> debouncer \<times> debouncer \<times> debouncer) \<times> bool
     \<Rightarrow> app_type \<Rightarrow> app_type" where
  "vTaskConfig_body MAX_RATE MIN_RATE inp app =
     (case inp of (polled, write_failed) \<Rightarrow>
        config_update MAX_RATE MIN_RATE write_failed (buttons_update polled app))"

definition vTaskMPU_body :: "vec3 \<Rightarrow> app_type \<Rightarrow> app_type" where
  "vTaskMPU_body v app = app\<lparr>queue_mpu := snd (xQueueSendToBack (queue_mpu app) v)\<rparr>"

text \<open>\<open>vTaskError\<close> from the moment it is woken by \<open>semaphore_error\<close>: LED on, hold, LED
  off, block again. Without the semaphore it stays blocked.\<close>

definition vTaskError_body :: "app_type \<Rightarrow> app_type" where
  "vTaskError_body app =
     (if semaphore_error app
      then emit (Board_LED_Set LED_1 False)
             (emit (Board_LED_Set LED_1 True) (app\<lparr>semaphore_error := False\<rparr>))
      else app)"

datatype task_step =
    Step_ADC byte
  | Step_App bool
  | Step_Bluetooth "byte option"
  | Step_Config "(debouncer \<times> debouncer \<times> debouncer \<times> debouncer) \<times> bool"
  | Step_Error
  | Step_MPU vec3

fun step_task ::
  "nat \<Rightarrow> int \<Rightarrow> int \<Rightarrow> (int \<Rightarrow> nat) \<Rightarrow> app_type \<times> nat \<Rightarrow> task_step \<Rightarrow> app_type \<times> nat"
where
  "step_task SIZE MAX_RATE MIN_RATE ms (app, d) (Step_ADC sample) =
     vTaskADC_body SIZE ms sample (app, d)"
| "step_task SIZE MAX_RATE MIN_RATE ms (app, d) (Step_App ack) = (app_update SIZE ack app, d)"
| "step_task SIZE MAX_RATE MIN_RATE ms (app, d) (Step_Bluetooth rx) = (bluetooth_update rx app, d)"
| "step_task SIZE MAX_RATE MIN_RATE ms (app, d) (Step_Config inp) =
     (vTaskConfig_body MAX_RATE MIN_RATE inp app, d)"
| "step_task SIZE MAX_RATE MIN_RATE ms (app, d) Step_Error = (vTaskError_body app, d)"
| "step_task SIZE MAX_RATE MIN_RATE ms (app, d) (Step_MPU v) = (vTaskMPU_body v app, d)"

definition run_tasks ::
  "nat \<Rightarrow> int \<Rightarrow> int \<Rightarrow> (int \<Rightarrow> nat) \<Rightarrow> task_step list \<Rightarrow> app_type \<times> nat \<Rightarrow> app_type \<times> nat"
where
  "run_tasks SIZE MAX_RATE MIN_RATE ms steps st =
     foldl (step_task SIZE MAX_RATE MIN_RATE ms) st steps"

text \<open>Runs of a single task: the producer over the samples of its iterations, the
  configuration task over the inputs of its iterations.\<close>

definition adc_run :: "nat \<Rightarrow> byte list \<Rightarrow> app_type \<Rightarrow> app_type" where
  "adc_run SIZE samples app = foldl (\<lambda>a s. adc_update SIZE s a) app samples"

definition vTaskConfig_run ::
  "int \<Rightarrow> int \<Rightarrow> ((debouncer \<times> debouncer \<times> debouncer \<times> debouncer) \<times> bool) list
     \<Rightarrow> app_type \<Rightarrow> app_type" where
  "vTaskConfig_run MAX_RATE MIN_RATE inps app =
     foldl (\<lambda>a i. vTaskConfig_body MAX_RATE MIN_RATE i a) app inps"

section \<open>Observations and scenarios\<close>

text \<open>The bytes of slot \<open>b\<close>, and what the consumer would receive from the queued buffers,
  oldest first.\<close>

definition buffer_contents :: "nat \<Rightarrow> app_type \<Rightarrow> nat \<Rightarrow> byte list" where
  "buffer_contents SIZE app b = take SIZE (drop (b * SIZE) (buffer_queue_mem app))"

definition queued_contents :: "nat \<Rightarrow> app_type \<Rightarrow> byte list list" where
  "queued_contents SIZE app = map (buffer_contents SIZE app) (bq_queued (data_queue app))"

fun is_pool_call :: "event \<Rightarrow> bool" where
  "is_pool_call (Buffer_push b) = True"
| "is_pool_call (Buffer_return b) = True"
| "is_pool_call e = False"

fun is_config_write :: "event \<Rightarrow> bool" where
  "is_config_write (Config_write p) = True"
| "is_config_write e = False"

fun is_bluetooth_write :: "event \<Rightarrow> bool" where
  "is_bluetooth_write (Bluetooth_write v) = True"
| "is_bluetooth_write e = False"

fun is_store :: "event \<Rightarrow> bool" where
  "is_store (Buffer_store b i v) = True"
| "is_store e = False"

text \<open>A store of \<open>adc_update\<close> is in bounds when its index is below the buffer size.\<close>

fun store_in_bounds :: "nat \<Rightarrow> event \<Rightarrow> bool" where
  "store_in_bounds SIZE (Buffer_store b i v) = (i < SIZE)"
| "store_in_bounds SIZE e = True"

text \<open>A forwarded value is zero.\<close>

fun forwards_zero :: "event \<Rightarrow> bool" where
  "forwards_zero (Bluetooth_write v) = (v = 0)"
| "forwards_zero e = True"

fun is_mpu_step :: "task_step \<Rightarrow> bool" where
  "is_mpu_step (Step_MPU v) = True"
| "is_mpu_step s = False"

text \<open>The state at start-up for the scenarios: zeroed storage with \<open>n\<close> bytes of buffer
  memory, then \<open>app_init\<close> and the prologue of \<open>vTaskADC\<close>.\<close>

definition idle_button :: debouncer where
  "idle_button = \<lparr>db_hi = False, db_edge = False\<rparr>"

definition pressed_button :: debouncer where
  "pressed_button = \<lparr>db_hi = True, db_edge = True\<rparr>"

definition app_zeroed :: "nat \<Rightarrow> app_type" where
  "app_zeroed n =
     \<lparr>accel = (0, 0, 0),
      queue_mpu = \<lparr>uxLength = 0, items = []\<rparr>,
      data_queue = \<lparr>bq_free = [], bq_queued = [], bq_producer = {}, bq_consumer = {}\<rparr>,
      buffer_queue_mem = replicate n 0,
      current_buffer = None,
      samples_in_buffer = 0,
      app_config = \<lparr>sample_period = 0\<rparr>,
      config_sd_present = False,
      semaphore_config = False,
      semaphore_error = False,
      semaphore_reply = False,
      button_left = idle_button,
      button_right = idle_button,
      button_up = idle_button,
      button_down = idle_button,
      trace = []\<rparr>"

definition app_boot :: "nat \<Rightarrow> nat \<Rightarrow> app_type" where
  "app_boot SIZE NMBR = vTaskADC_start (app_init NMBR (app_zeroed (SIZE * NMBR)))"


text \<open>The pool exhausted by the producer alone: four buffers filled and queued, none
  free, none checked out. And one buffer filled with the byte 10 and queued.\<close>

definition pool_exhausted :: app_type where
  "pool_exhausted = adc_run 8 (replicate 32 1) (app_boot 8 4)"

definition one_buffer_queued :: app_type where
  "one_buffer_queued = adc_run 8 (replicate 8 10) (app_boot 8 4)"



text \<open>Scenario C: an "increase" edge is an iteration of the configuration task in which
  the right button shows an edge to high and the left button shows none.\<close>

definition increase_edge :: "bool \<Rightarrow> (debouncer \<times> debouncer \<times> debouncer \<times> debouncer) \<times> bool"
where
  "increase_edge write_failed =
     ((idle_button, pressed_button, idle_button, idle_button), write_failed)"

definition decrease_edge :: "bool \<Rightarrow> (debouncer \<times> debouncer \<times> debouncer \<times> debouncer) \<times> bool"
where
  "decrease_edge write_failed =
     ((pressed_button, idle_button, idle_button, idle_button), write_failed)"

text \<open>The start-up state with the configuration store present, as \<open>vTaskConfig\<close> leaves
  \<open>config_sd_present\<close> when \<open>config_init\<close> succeeds.\<close>

definition sd_present_boot :: app_type where
  "sd_present_boot = (app_boot 8 4)\<lparr>config_sd_present := True\<rparr>"

text \<open>A schedule in which all six tasks take turns.\<close>

definition mixed_schedule :: "task_step list" where
  "mixed_schedule =
     [Step_ADC 1, Step_ADC 2, Step_Config (increase_edge False), Step_ADC 3, Step_ADC 4,
      Step_MPU (1, 2, 3), Step_ADC 5, Step_ADC 6, Step_ADC 7, Step_ADC 8, Step_App False,
      Step_Error, Step_Bluetooth (Some 6), Step_ADC 9, Step_App True]"

text \<open>The same schedule without the auxiliary sampler.\<close>

definition schedule_without_mpu :: "task_step list" where
  "schedule_without_mpu = filter (\<lambda>s. \<not> is_mpu_step s) mixed_schedule"

section \<open>Auxiliary facts\<close>

lemmas bq_defs =
  buffer_queue_get_avail_def buffer_queue_get_inuse_def buffer_queue_push_def
  buffer_queue_return_def buffer_queue_init_def

lemmas rtos_defs =
  xQueueReceive_def xQueueSendToBack_def xQueueCreate_def xSemaphoreGive_def
  xSemaphoreTake_def xSemaphoreCreateBinary_def

lemma forward_loop:
  "foldl (\<lambda>a i. emit (Bluetooth_write (real (unat (buffer_queue_mem a ! (k + i))) * m)) a) app xs
     = app\<lparr>trace := trace app
          @ map (\<lambda>i. Bluetooth_write (real (unat (buffer_queue_mem app ! (k + i))) * m)) xs\<rparr>"
  by (induction xs arbitrary: app) (simp_all add: emit_def)

lemma forward_buffer_eq:
  "forward_buffer SIZE b m app
     = app\<lparr>trace := trace app
          @ map (\<lambda>i. Bluetooth_write (real (unat (buffer_queue_mem app ! (b * SIZE + i))) * m))
              [0..<SIZE]\<rparr>"
  unfolding forward_buffer_def by (rule forward_loop)



lemma app_update_split:
  "app_update SIZE ack app
     = app_update_forward SIZE ack (fst (app_update_acquire app)) (snd (app_update_acquire app))"
  by (simp add: app_update_def app_update_acquire_def app_update_forward_def Let_def
      split: prod.splits option.splits)

lemma adc_update_semaphore_config:
  "semaphore_config (adc_update SIZE s app) = semaphore_config app"
  by (simp add: adc_update_def bq_defs emit_def Let_def split: option.splits list.splits)

lemma adc_update_app_config:
  "app_config (adc_update SIZE s app) = app_config app"
  by (simp add: adc_update_def bq_defs emit_def Let_def split: option.splits list.splits)

lemma config_update_bound:
  assumes "MIN_RATE \<le> sample_period (app_config app)" "sample_period (app_config app) \<le> MAX_RATE"
  shows "MIN_RATE \<le> sample_period (app_config (config_update MAX_RATE MIN_RATE write_failed app))
       \<and> sample_period (app_config (config_update MAX_RATE MIN_RATE write_failed app)) \<le> MAX_RATE"
  using assms
  by (simp add: config_update_def emit_def Let_def rtos_defs split: prod.splits)

lemma buttons_update_config: "app_config (buttons_update p app) = app_config app"
  by (simp add: buttons_update_def split: prod.splits)

lemma vTaskConfig_body_bound:
  assumes "MIN_RATE \<le> sample_period (app_config app)" "sample_period (app_config app) \<le> MAX_RATE"
  shows "MIN_RATE \<le> sample_period (app_config (vTaskConfig_body MAX_RATE MIN_RATE inp app))
       \<and> sample_period (app_config (vTaskConfig_body MAX_RATE MIN_RATE inp app)) \<le> MAX_RATE"
proof (cases inp)
  case (Pair polled write_failed)
  then show ?thesis
    using assms config_update_bound [of MIN_RATE "buttons_update polled app" MAX_RATE write_failed]
    by (simp add: vTaskConfig_body_def buttons_update_config)
qed

lemma vTaskConfig_run_bound:
  assumes "MIN_RATE \<le> sample_period (app_config app)" "sample_period (app_config app) \<le> MAX_RATE"
  shows "MIN_RATE \<le> sample_period (app_config (vTaskConfig_run MAX_RATE MIN_RATE inps app))
       \<and> sample_period (app_config (vTaskConfig_run MAX_RATE MIN_RATE inps app)) \<le> MAX_RATE"
  using assms
proof (induction inps arbitrary: app)
  case Nil
  then show ?case by (simp add: vTaskConfig_run_def)
next
  case (Cons i inps)
  have "vTaskConfig_run MAX_RATE MIN_RATE (i # inps) app
        = vTaskConfig_run MAX_RATE MIN_RATE inps (vTaskConfig_body MAX_RATE MIN_RATE i app)"
    by (simp add: vTaskConfig_run_def)
  then show ?case
    using Cons.IH [of "vTaskConfig_body MAX_RATE MIN_RATE i app"]
      vTaskConfig_body_bound [OF Cons.prems, of i]
    by simp
qed

lemma increase_step:
  "sample_period (app_config (vTaskConfig_body MAX_RATE MIN_RATE (increase_edge w) app))
     = (if sample_period (app_config app) < MAX_RATE then sample_period (app_config app) + 1
        else sample_period (app_config app))
   \<and> config_sd_present (vTaskConfig_body MAX_RATE MIN_RATE (increase_edge w) app)
     = config_sd_present app
   \<and> filter is_config_write (trace (vTaskConfig_body MAX_RATE MIN_RATE (increase_edge w) app))
     = filter is_config_write (trace app)
       @ (if config_sd_present app
          then [Config_write (if sample_period (app_config app) < MAX_RATE
                              then sample_period (app_config app) + 1
                              else sample_period (app_config app))]
          else [])
   \<and> count_list (trace (vTaskConfig_body MAX_RATE MIN_RATE (increase_edge w) app))
        (Semaphore_give Sem_config)
     = count_list (trace app) (Semaphore_give Sem_config) + 1"
  by (simp add: vTaskConfig_body_def increase_edge_def buttons_update_def config_update_def
      idle_button_def pressed_button_def debouncer_is_edge_def debouncer_is_hi_def
      emit_def Let_def rtos_defs)

lemma increase_run:
  assumes "sample_period (app_config app) \<le> MAX_RATE"
  shows "sample_period (app_config (vTaskConfig_run MAX_RATE MIN_RATE (map increase_edge ws) app))
     = min (sample_period (app_config app) + int (length ws)) MAX_RATE
   \<and> config_sd_present (vTaskConfig_run MAX_RATE MIN_RATE (map increase_edge ws) app)
     = config_sd_present app
   \<and> filter is_config_write
        (trace (vTaskConfig_run MAX_RATE MIN_RATE (map increase_edge ws) app))
     = filter is_config_write (trace app)
       @ (if config_sd_present app
          then map (\<lambda>k. Config_write (min (sample_period (app_config app) + int k) MAX_RATE))
                 [1..<Suc (length ws)]
          else [])
   \<and> count_list (trace (vTaskConfig_run MAX_RATE MIN_RATE (map increase_edge ws) app))
        (Semaphore_give Sem_config)
     = count_list (trace app) (Semaphore_give Sem_config) + length ws"
  using assms
proof (induction ws rule: rev_induct)
  case Nil
  then show ?case by (simp add: vTaskConfig_run_def)
next
  case (snoc w ws)
  have run: "vTaskConfig_run MAX_RATE MIN_RATE (map increase_edge (ws @ [w])) app
        = vTaskConfig_body MAX_RATE MIN_RATE (increase_edge w)
            (vTaskConfig_run MAX_RATE MIN_RATE (map increase_edge ws) app)"
    by (simp add: vTaskConfig_run_def)
  show ?case
    unfolding run
    using snoc.IH [OF snoc.prems] snoc.prems
      increase_step [of MAX_RATE MIN_RATE w
        "vTaskConfig_run MAX_RATE MIN_RATE (map increase_edge ws) app"]
    by (simp add: min_def)
qed

lemma written_values:
  "map (\<lambda>k. Config_write (min (0 + int k) 9)) [1..<Suc 20]
     = map Config_write ([1, 2, 3, 4, 5, 6, 7, 8, 9] @ replicate 11 9)"
  by code_simp

lemma forwarded_in_bounds:
  "list_all (store_in_bounds SIZE) (map (\<lambda>i. Bluetooth_write (f i)) xs)"
  by (induction xs) simp_all

lemma adc_update_inv:
  assumes "0 < SIZE"
    and "list_all (store_in_bounds SIZE) (trace app)"
    and "current_buffer app \<noteq> None \<longrightarrow> samples_in_buffer app < SIZE"
  shows "list_all (store_in_bounds SIZE) (trace (adc_update SIZE s app))
         \<and> (current_buffer (adc_update SIZE s app) \<noteq> None
              \<longrightarrow> samples_in_buffer (adc_update SIZE s app) < SIZE)"
  using assms
  by (auto simp add: adc_update_def bq_defs emit_def Let_def split: option.splits list.splits)

lemma app_update_frame:
  "current_buffer (app_update SIZE ack app) = current_buffer app
   \<and> samples_in_buffer (app_update SIZE ack app) = samples_in_buffer app
   \<and> (list_all (store_in_bounds N) (trace app)
        \<longrightarrow> list_all (store_in_bounds N) (trace (app_update SIZE ack app)))"
  by (simp add: app_update_def bq_defs rtos_defs emit_def Let_def forward_buffer_eq
      forwarded_in_bounds split: option.splits list.splits)

lemma config_body_frame:
  "current_buffer (vTaskConfig_body MAX_RATE MIN_RATE inp app) = current_buffer app
   \<and> samples_in_buffer (vTaskConfig_body MAX_RATE MIN_RATE inp app) = samples_in_buffer app
   \<and> (list_all (store_in_bounds N) (trace app)
        \<longrightarrow> list_all (store_in_bounds N) (trace (vTaskConfig_body MAX_RATE MIN_RATE inp app)))"
  by (cases inp)
    (simp add: vTaskConfig_body_def buttons_update_def config_update_def emit_def Let_def
      rtos_defs split: prod.splits)

lemma other_tasks_frame:
  "current_buffer (bluetooth_update rx app) = current_buffer app
   \<and> samples_in_buffer (bluetooth_update rx app) = samples_in_buffer app
   \<and> (list_all (store_in_bounds N) (trace app)
        \<longrightarrow> list_all (store_in_bounds N) (trace (bluetooth_update rx app)))
   \<and> current_buffer (vTaskError_body app) = current_buffer app
   \<and> samples_in_buffer (vTaskError_body app) = samples_in_buffer app
   \<and> (list_all (store_in_bounds N) (trace app)
        \<longrightarrow> list_all (store_in_bounds N) (trace (vTaskError_body app)))
   \<and> current_buffer (vTaskMPU_body v app) = current_buffer app
   \<and> samples_in_buffer (vTaskMPU_body v app) = samples_in_buffer app
   \<and> trace (vTaskMPU_body v app) = trace app"
  by (simp add: bluetooth_update_def vTaskError_body_def vTaskMPU_body_def emit_def
      split: option.splits)

lemma reload_frame:
  "current_buffer (fst (vTaskADC_reload ms (app, d))) = current_buffer app
   \<and> samples_in_buffer (fst (vTaskADC_reload ms (app, d))) = samples_in_buffer app
   \<and> trace (fst (vTaskADC_reload ms (app, d))) = trace app"
  by (simp add: vTaskADC_reload_def rtos_defs Let_def)

lemma step_task_inv:
  assumes "0 < SIZE"
    and "list_all (store_in_bounds SIZE) (trace (fst st))"
    and "current_buffer (fst st) \<noteq> None \<longrightarrow> samples_in_buffer (fst st) < SIZE"
  shows "list_all (store_in_bounds SIZE)
           (trace (fst (step_task SIZE MAX_RATE MIN_RATE ms st step)))
         \<and> (current_buffer (fst (step_task SIZE MAX_RATE MIN_RATE ms st step)) \<noteq> None
              \<longrightarrow> samples_in_buffer (fst (step_task SIZE MAX_RATE MIN_RATE ms st step)) < SIZE)"
proof (cases st)
  case (Pair app d)
  show ?thesis
  proof (cases step)
    case (Step_ADC s)
    then show ?thesis
      using assms Pair adc_update_inv [of SIZE app s] reload_frame [of ms "adc_update SIZE s app" d]
      by (simp add: vTaskADC_body_def)
  next
    case (Step_App ack)
    then show ?thesis
      using assms Pair app_update_frame [of SIZE ack app SIZE] by simp
  next
    case (Step_Bluetooth rx)
    then show ?thesis
      using assms Pair other_tasks_frame [of rx app SIZE] by simp
  next
    case (Step_Config inp)
    then show ?thesis
      using assms Pair config_body_frame [of MAX_RATE MIN_RATE inp app SIZE] by simp
  next
    case Step_Error
    then show ?thesis
      using assms Pair other_tasks_frame [of None app SIZE] by simp
  next
    case (Step_MPU v)
    then show ?thesis
      using assms Pair other_tasks_frame [of None app SIZE v] by simp
  qed
qed

lemma run_tasks_inv:
  assumes "0 < SIZE"
    and "list_all (store_in_bounds SIZE) (trace (fst st))"
    and "current_buffer (fst st) \<noteq> None \<longrightarrow> samples_in_buffer (fst st) < SIZE"
  shows "list_all (store_in_bounds SIZE)
           (trace (fst (run_tasks SIZE MAX_RATE MIN_RATE ms steps st)))
         \<and> (current_buffer (fst (run_tasks SIZE MAX_RATE MIN_RATE ms steps st)) \<noteq> None
              \<longrightarrow> samples_in_buffer (fst (run_tasks SIZE MAX_RATE MIN_RATE ms steps st)) < SIZE)"
  using assms(2,3)
proof (induction steps arbitrary: st)
  case Nil
  then show ?case by (simp add: run_tasks_def)
next
  case (Cons step steps)
  have run: "run_tasks SIZE MAX_RATE MIN_RATE ms (step # steps) st
        = run_tasks SIZE MAX_RATE MIN_RATE ms steps (step_task SIZE MAX_RATE MIN_RATE ms st step)"
    by (simp add: run_tasks_def)
  show ?case
    unfolding run
    using Cons.IH [of "step_task SIZE MAX_RATE MIN_RATE ms st step"]
      step_task_inv [OF assms(1) Cons.prems, of MAX_RATE MIN_RATE ms step]
    by blast
qed

lemma forwarded_zero:
  "list_all forwards_zero (map (\<lambda>i. Bluetooth_write 0) xs)"
  by (induction xs) simp_all

lemma app_init_neutral:
  "fst (accel (app_init NMBR app)) = 0 \<and> items (queue_mpu (app_init NMBR app)) = []
   \<and> trace (app_init NMBR app) = trace app"
  by (simp add: app_init_def rtos_defs)

lemma app_update_before_vector:
  assumes "fst (accel app) = 0" and "items (queue_mpu app) = []"
    and "list_all forwards_zero (trace app)"
  shows "fst (accel (app_update SIZE ack app)) = 0
         \<and> items (queue_mpu (app_update SIZE ack app)) = []
         \<and> list_all forwards_zero (trace (app_update SIZE ack app))"
  using assms
  by (simp add: app_update_def bq_defs rtos_defs emit_def Let_def forward_buffer_eq
      forwarded_zero split: option.splits list.splits)

lemma adc_body_before_vector:
  assumes "fst (accel app) = 0" and "items (queue_mpu app) = []"
    and "list_all forwards_zero (trace app)"
  shows "fst (accel (fst (vTaskADC_body SIZE ms s (app, d)))) = 0
         \<and> items (queue_mpu (fst (vTaskADC_body SIZE ms s (app, d)))) = []
         \<and> list_all forwards_zero (trace (fst (vTaskADC_body SIZE ms s (app, d))))"
  using assms
  by (simp add: vTaskADC_body_def vTaskADC_reload_def adc_update_def bq_defs rtos_defs
      emit_def Let_def split: option.splits list.splits)

lemma config_body_before_vector:
  assumes "fst (accel app) = 0" and "items (queue_mpu app) = []"
    and "list_all forwards_zero (trace app)"
  shows "fst (accel (vTaskConfig_body MAX_RATE MIN_RATE inp app)) = 0
         \<and> items (queue_mpu (vTaskConfig_body MAX_RATE MIN_RATE inp app)) = []
         \<and> list_all forwards_zero (trace (vTaskConfig_body MAX_RATE MIN_RATE inp app))"
  using assms
  by (cases inp)
    (simp add: vTaskConfig_body_def buttons_update_def config_update_def emit_def Let_def
      rtos_defs split: prod.splits)

lemma other_tasks_before_vector:
  assumes "fst (accel app) = 0" and "items (queue_mpu app) = []"
    and "list_all forwards_zero (trace app)"
  shows "fst (accel (bluetooth_update rx app)) = 0
         \<and> items (queue_mpu (bluetooth_update rx app)) = []
         \<and> list_all forwards_zero (trace (bluetooth_update rx app))
         \<and> fst (accel (vTaskError_body app)) = 0
         \<and> items (queue_mpu (vTaskError_body app)) = []
         \<and> list_all forwards_zero (trace (vTaskError_body app))"
  using assms
  by (simp add: bluetooth_update_def vTaskError_body_def emit_def split: option.splits)

lemma step_task_before_vector:
  assumes "\<not> is_mpu_step step"
    and "fst (accel (fst st)) = 0" and "items (queue_mpu (fst st)) = []"
    and "list_all forwards_zero (trace (fst st))"
  shows "fst (accel (fst (step_task SIZE MAX_RATE MIN_RATE ms st step))) = 0
         \<and> items (queue_mpu (fst (step_task SIZE MAX_RATE MIN_RATE ms st step))) = []
         \<and> list_all forwards_zero (trace (fst (step_task SIZE MAX_RATE MIN_RATE ms st step)))"
proof (cases st)
  case (Pair app d)
  show ?thesis
  proof (cases step)
    case (Step_ADC s)
    then show ?thesis
      using assms Pair adc_body_before_vector [of app SIZE ms s d] by simp
  next
    case (Step_App ack)
    then show ?thesis
      using assms Pair app_update_before_vector [of app SIZE ack] by simp
  next
    case (Step_Bluetooth rx)
    then show ?thesis
      using assms Pair other_tasks_before_vector [of app rx] by simp
  next
    case (Step_Config inp)
    then show ?thesis
      using assms Pair config_body_before_vector [of app MAX_RATE MIN_RATE inp] by simp
  next
    case Step_Error
    then show ?thesis
      using assms Pair other_tasks_before_vector [of app None] by simp
  next
    case (Step_MPU v)
    then show ?thesis
      using assms by simp
  qed
qed

lemma run_tasks_before_vector:
  assumes "list_all (\<lambda>s. \<not> is_mpu_step s) steps"
    and "fst (accel (fst st)) = 0" and "items (queue_mpu (fst st)) = []"
    and "list_all forwards_zero (trace (fst st))"
  shows "fst (accel (fst (run_tasks SIZE MAX_RATE MIN_RATE ms steps st))) = 0
         \<and> items (queue_mpu (fst (run_tasks SIZE MAX_RATE MIN_RATE ms steps st))) = []
         \<and> list_all forwards_zero (trace (fst (run_tasks SIZE MAX_RATE MIN_RATE ms steps st)))"
  using assms
proof (induction steps arbitrary: st)
  case Nil
  then show ?case by (simp add: run_tasks_def)
next
  case (Cons step steps)
  have run: "run_tasks SIZE MAX_RATE MIN_RATE ms (step # steps) st
        = run_tasks SIZE MAX_RATE MIN_RATE ms steps (step_task SIZE MAX_RATE MIN_RATE ms st step)"
    by (simp add: run_tasks_def)
  have nm: "\<not> is_mpu_step step" and rest: "list_all (\<lambda>s. \<not> is_mpu_step s) steps"
    using Cons.prems(1) by simp_all
  show ?case
    unfolding run
    using Cons.IH [OF rest, of "step_task SIZE MAX_RATE MIN_RATE ms st step"]
      step_task_before_vector [OF nm Cons.prems(2,3,4), of SIZE MAX_RATE MIN_RATE ms]
    by blast
qed

lemma app_update_forwards_zero:
  assumes "fst (accel app) = 0" and "items (queue_mpu app) = []"
    and "bq_queued (data_queue app) = b # bs"
  shows "filter is_bluetooth_write (trace (app_update SIZE ack app))
           = filter is_bluetooth_write (trace app) @ replicate SIZE (Bluetooth_write 0)"
  using assms
  by (simp add: app_update_def bq_defs rtos_defs emit_def Let_def forward_buffer_eq
      map_replicate_const)

section \<open>The mailbox\<close>

text \<open>
  C1, as stated ("two sends followed by one receive yield the value of the second send")
  fails. The auxiliary mailbox is \<open>queue_mpu\<close>, created by \<open>xQueueCreate(1, ...)\<close> and
  written by \<open>xQueueSendToBack(..., 0)\<close>: after two sends to the empty mailbox a receive
  returns the value of the first send, and the second send has failed.
\<close>

theorem mailbox_second_send_dropped:
  "fst (xQueueReceive (snd (xQueueSendToBack
          (snd (xQueueSendToBack (xQueueCreate 1) (1 :: nat))) 2))) = Some 1
   \<and> fst (xQueueReceive (snd (xQueueSendToBack
          (snd (xQueueSendToBack (xQueueCreate 1) (1 :: nat))) 2))) \<noteq> Some 2
   \<and> \<not> fst (xQueueSendToBack (snd (xQueueSendToBack (xQueueCreate 1) (1 :: nat))) 2)"
  by (simp add: xQueueReceive_def xQueueSendToBack_def xQueueCreate_def)

text \<open>
  C1, amended. For every state of the mailbox (a queue of length 1), after two iterations
  of \<open>vTaskMPU\<close> sending \<open>a\<close> and then \<open>b\<close> with no receive in between, a receive returns
  the oldest unread value: the value that was already in the mailbox, or \<open>a\<close> when the
  mailbox was empty. The second send always fails.
\<close>

theorem mailbox_send_keeps_unread:
  assumes "uxLength (queue_mpu app) = 1"
  shows "fst (xQueueReceive (queue_mpu (vTaskMPU_body b (vTaskMPU_body a app))))
           = Some (case items (queue_mpu app) of [] \<Rightarrow> a | v # vs \<Rightarrow> v)
         \<and> \<not> fst (xQueueSendToBack (queue_mpu (vTaskMPU_body a app)) b)"
  using assms
  by (simp add: vTaskMPU_body_def xQueueReceive_def xQueueSendToBack_def split: list.splits)

theorem mailbox_send_keeps_unread_witness:
  "uxLength (queue_mpu (app_init 4 (app_zeroed 32))) = 1
   \<and> fst (xQueueReceive (queue_mpu (vTaskMPU_body (4, 5, 6)
            (vTaskMPU_body (1, 2, 3) (app_init 4 (app_zeroed 32)))))) = Some (1, 2, 3)"
proof -
  have h: "uxLength (queue_mpu (app_init 4 (app_zeroed 32))) = 1"
    by (simp add: app_init_def xQueueCreate_def)
  have e: "items (queue_mpu (app_init 4 (app_zeroed 32))) = []"
    by (simp add: app_init_def xQueueCreate_def)
  show ?thesis
    using h e mailbox_send_keeps_unread [OF h, of "(4, 5, 6)" "(1, 2, 3)"] by simp
qed

section \<open>The producer\<close>

text \<open>
  C2, as stated ("after a successful reclaim the producer holds a buffer in that same
  iteration") fails. With the pool exhausted, an iteration of \<open>adc_update\<close> reclaims slot
  0, which is free afterwards, and ends without a buffer.
\<close>

theorem reclaim_holds_no_buffer:
  "current_buffer pool_exhausted = None
   \<and> bq_free (data_queue pool_exhausted) = []
   \<and> bq_queued (data_queue pool_exhausted) = [0, 1, 2, 3]
   \<and> bq_free (data_queue (adc_update 8 7 pool_exhausted)) = [0]
   \<and> current_buffer (adc_update 8 7 pool_exhausted) = None
   \<and> current_buffer (adc_update 8 7 pool_exhausted) \<noteq> Some 0"
  by code_simp

text \<open>
  C2, amended. In an iteration of the producer with no buffer checked out and no free
  buffer, the oldest queued buffer \<open>b\<close> is dequeued and returned to the free list, its
  data discarded; the acquire is not retried in that iteration: the iteration ends with
  no buffer checked out, no sample stored and the fill counter 0. The next iteration
  acquires the buffer, stores its sample at index 0 and leaves the fill counter at 1.
\<close>

theorem adc_update_reclaim:
  assumes "current_buffer app = None"
    and "bq_free (data_queue app) = []"
    and "bq_queued (data_queue app) = b # bs"
  shows "current_buffer (adc_update SIZE s1 app) = None
         \<and> samples_in_buffer (adc_update SIZE s1 app) = 0
         \<and> buffer_queue_mem (adc_update SIZE s1 app) = buffer_queue_mem app
         \<and> bq_free (data_queue (adc_update SIZE s1 app)) = [b]
         \<and> bq_queued (data_queue (adc_update SIZE s1 app)) = bs
         \<and> trace (adc_update SIZE s1 app) = trace app @ [Buffer_return b]
         \<and> current_buffer (adc_update SIZE s2 (adc_update SIZE s1 app))
             = (if SIZE = 1 then None else Some b)
         \<and> samples_in_buffer (adc_update SIZE s2 (adc_update SIZE s1 app)) = 1
         \<and> trace (adc_update SIZE s2 (adc_update SIZE s1 app))
             = trace app @ [Buffer_return b, Buffer_store b 0 s2]
                 @ (if SIZE = 1 then [Buffer_push b] else [])"
  using assms
  by (simp add: adc_update_def bq_defs emit_def Let_def)

theorem adc_update_reclaim_witness:
  "current_buffer pool_exhausted = None
   \<and> bq_free (data_queue pool_exhausted) = []
   \<and> bq_queued (data_queue pool_exhausted) = [0, 1, 2, 3]
   \<and> current_buffer (adc_update 8 7 pool_exhausted) = None
   \<and> samples_in_buffer (adc_update 8 7 pool_exhausted) = 0
   \<and> current_buffer (adc_update 8 9 (adc_update 8 7 pool_exhausted)) = Some 0
   \<and> samples_in_buffer (adc_update 8 9 (adc_update 8 7 pool_exhausted)) = 1"
proof -
  have h1: "current_buffer pool_exhausted = None"
    by code_simp
  have h2: "bq_free (data_queue pool_exhausted) = []"
    by code_simp
  have h3: "bq_queued (data_queue pool_exhausted) = [0, 1, 2, 3]"
    by code_simp
  show ?thesis
    using h1 h2 h3 adc_update_reclaim [OF h1 h2 h3, of 8 7 9] by simp
qed



text \<open>
  When the consumer has not taken the first buffer by the time the pool overflows, the
  oldest queued buffer is the first one, and that is the one the producer discards.
\<close>

lemma scenario_A_without_consumer:
  "queued_contents 8 (adc_run 8 (map s [0..<32]) (app_boot 8 4))
     = [map s [0..<8], map s [8..<16], map s [16..<24], map s [24..<32]]
   \<and> queued_contents 8 (adc_run 8 (map s [0..<41]) (app_boot 8 4))
     = [map s [8..<16], map s [16..<24], map s [24..<32], map s [33..<41]]
   \<and> filter is_pool_call (trace (adc_run 8 (map s [0..<41]) (app_boot 8 4)))
     = [Buffer_push 0, Buffer_push 1, Buffer_push 2, Buffer_push 3,
        Buffer_return 0, Buffer_push 0]"
  by code_simp

text \<open>
  C10. From the prologue of \<open>vTaskADC\<close> on, whatever the other tasks do in between and
  whatever the fill counter held at start-up, every store \<open>buf[samples_in_buffer] = ...\<close>
  of the producer has its index below \<open>APP_DATA_BUF_SIZE\<close>, and while a buffer is checked
  out the fill counter is below \<open>APP_DATA_BUF_SIZE\<close>. The buffer size is positive (the
  array \<open>buffer_queue_mem\<close> could not be declared otherwise).
\<close>

theorem producer_stores_in_bounds:
  assumes "0 < SIZE" and "list_all (store_in_bounds SIZE) (trace app)"
  shows "list_all (store_in_bounds SIZE)
           (trace (fst (run_tasks SIZE MAX_RATE MIN_RATE ms steps (vTaskADC_start app, d))))
         \<and> (current_buffer
               (fst (run_tasks SIZE MAX_RATE MIN_RATE ms steps (vTaskADC_start app, d))) \<noteq> None
              \<longrightarrow> samples_in_buffer
                    (fst (run_tasks SIZE MAX_RATE MIN_RATE ms steps (vTaskADC_start app, d)))
                  < SIZE)"
  using assms run_tasks_inv [of SIZE "(vTaskADC_start app, d)" MAX_RATE MIN_RATE ms steps]
  by (simp add: vTaskADC_start_def)

theorem producer_stores_in_bounds_witness:
  "(0 :: nat) < 8
   \<and> list_all (store_in_bounds 8) (trace (app_init 4 (app_zeroed 32)))
   \<and> list_all (store_in_bounds 8)
        (trace (fst (run_tasks 8 9 0 nat mixed_schedule
                       (vTaskADC_start (app_init 4 (app_zeroed 32)), 10))))
   \<and> length (filter is_store
        (trace (fst (run_tasks 8 9 0 nat mixed_schedule
                       (vTaskADC_start (app_init 4 (app_zeroed 32)), 10))))) = 9
   \<and> current_buffer (fst (run_tasks 8 9 0 nat mixed_schedule
                       (vTaskADC_start (app_init 4 (app_zeroed 32)), 10))) = Some 1
   \<and> samples_in_buffer (fst (run_tasks 8 9 0 nat mixed_schedule
                       (vTaskADC_start (app_init 4 (app_zeroed 32)), 10))) = 1"
proof -
  have h1: "(0 :: nat) < 8"
    by simp
  have h2: "list_all (store_in_bounds 8) (trace (app_init 4 (app_zeroed 32)))"
    by code_simp
  have n: "length (filter is_store
        (trace (fst (run_tasks 8 9 0 nat mixed_schedule
                       (vTaskADC_start (app_init 4 (app_zeroed 32)), 10))))) = 9"
    by code_simp
  have c: "current_buffer (fst (run_tasks 8 9 0 nat mixed_schedule
                       (vTaskADC_start (app_init 4 (app_zeroed 32)), 10))) = Some 1"
    by code_simp
  have k: "samples_in_buffer (fst (run_tasks 8 9 0 nat mixed_schedule
                       (vTaskADC_start (app_init 4 (app_zeroed 32)), 10))) = 1"
    by code_simp
  show ?thesis
    using h1 h2 n c k producer_stores_in_bounds [OF h1 h2, of 9 0 nat mixed_schedule 10]
    by simp
qed

section \<open>The consumer\<close>

text \<open>
  C5, as stated ("the consumer reports an error for that iteration") fails. With no
  buffer queued, \<open>app_update\<close> calls no collaborator at all (the branch of the time-out is
  empty) and the error semaphore is not given.
\<close>

theorem timeout_reports_nothing:
  "bq_queued (data_queue (app_boot 8 4)) = []
   \<and> trace (app_update 8 False (app_boot 8 4)) = []
   \<and> \<not> semaphore_error (app_update 8 False (app_boot 8 4))"
  by code_simp

text \<open>
  C5, amended. Whenever the consumer's \<open>buffer_queue_get_inuse\<close> times out, the iteration
  does nothing beyond the receive from the mailbox at its start: no error is reported,
  nothing is written, no semaphore is given and the pool is untouched. The function
  returns, so the task proceeds to its next iteration.
\<close>

theorem app_update_timeout:
  assumes "bq_queued (data_queue app) = []"
  shows "app_update SIZE ack app =
           (case items (queue_mpu app) of
              [] \<Rightarrow> app
            | v # vs \<Rightarrow> app\<lparr>queue_mpu := (queue_mpu app)\<lparr>items := vs\<rparr>, accel := v\<rparr>)"
  using assms
  by (simp add: app_update_def bq_defs rtos_defs Let_def split: list.splits)

theorem app_update_timeout_witness:
  "bq_queued (data_queue (app_boot 8 4)) = []
   \<and> app_update 8 True (app_boot 8 4) = app_boot 8 4"
proof -
  have h: "bq_queued (data_queue (app_boot 8 4)) = []"
    by code_simp
  have e: "items (queue_mpu (app_boot 8 4)) = []"
    by code_simp
  show ?thesis
    using h e app_update_timeout [OF h, of 8 True] by simp
qed




text \<open>
  C6, as stated ("every sample it forwards equals the raw sample value stored in the
  buffer") fails. With one buffer holding the byte 10 at every position queued and no
  vector sent yet, the consumer forwards the value 0 eight times.
\<close>

theorem first_scale_is_zero:
  "queued_contents 8 one_buffer_queued = [replicate 8 10]
   \<and> items (queue_mpu one_buffer_queued) = []
   \<and> filter is_bluetooth_write (trace (app_update 8 False one_buffer_queued))
     = replicate 8 (Bluetooth_write 0)
   \<and> filter is_bluetooth_write (trace (app_update 8 False one_buffer_queued))
     \<noteq> replicate 8 (Bluetooth_write 10)"
  by code_simp

text \<open>
  C6, amended. Before the first auxiliary vector arrives in the mailbox (in any run of
  the tasks after \<open>app_init\<close> in which \<open>vTaskMPU\<close> has not sent yet), the consumer scales
  by the initial value 0.0 of \<open>accel[0]\<close>: every value it has forwarded is 0, and an
  iteration that finds a buffer queued forwards \<open>APP_DATA_BUF_SIZE\<close> values 0.
\<close>

theorem scale_before_first_vector:
  assumes "list_all (\<lambda>s. \<not> is_mpu_step s) steps"
    and "list_all forwards_zero (trace app)"
  shows "list_all forwards_zero
           (trace (fst (run_tasks SIZE MAX_RATE MIN_RATE ms steps (app_init NMBR app, d))))
         \<and> (bq_queued (data_queue
               (fst (run_tasks SIZE MAX_RATE MIN_RATE ms steps (app_init NMBR app, d)))) \<noteq> []
            \<longrightarrow> filter is_bluetooth_write (trace (app_update SIZE ack
                   (fst (run_tasks SIZE MAX_RATE MIN_RATE ms steps (app_init NMBR app, d)))))
                = filter is_bluetooth_write
                    (trace (fst (run_tasks SIZE MAX_RATE MIN_RATE ms steps
                                   (app_init NMBR app, d))))
                  @ replicate SIZE (Bluetooth_write 0))"
proof -
  let ?final = "fst (run_tasks SIZE MAX_RATE MIN_RATE ms steps (app_init NMBR app, d))"
  have inv: "fst (accel ?final) = 0 \<and> items (queue_mpu ?final) = []
             \<and> list_all forwards_zero (trace ?final)"
    using run_tasks_before_vector [OF assms(1), of "(app_init NMBR app, d)" SIZE MAX_RATE
        MIN_RATE ms] assms(2) app_init_neutral [of NMBR app]
    by simp
  have "bq_queued (data_queue ?final) \<noteq> []
        \<Longrightarrow> filter is_bluetooth_write (trace (app_update SIZE ack ?final))
            = filter is_bluetooth_write (trace ?final) @ replicate SIZE (Bluetooth_write 0)"
  proof -
    assume "bq_queued (data_queue ?final) \<noteq> []"
    then obtain b bs where "bq_queued (data_queue ?final) = b # bs"
      by (cases "bq_queued (data_queue ?final)") simp_all
    then show ?thesis
      using inv app_update_forwards_zero [of ?final b bs SIZE ack] by simp
  qed
  then show ?thesis
    using inv by blast
qed

theorem scale_before_first_vector_witness:
  "list_all (\<lambda>s. \<not> is_mpu_step s) schedule_without_mpu
   \<and> list_all forwards_zero (trace (app_zeroed 32))
   \<and> length (filter is_bluetooth_write (trace (fst (run_tasks 8 9 0 nat schedule_without_mpu
        (app_init 4 (app_zeroed 32), 10))))) = 8
   \<and> list_all forwards_zero (trace (fst (run_tasks 8 9 0 nat schedule_without_mpu
        (app_init 4 (app_zeroed 32), 10))))"
proof -
  have h1: "list_all (\<lambda>s. \<not> is_mpu_step s) schedule_without_mpu"
    by code_simp
  have h2: "list_all forwards_zero (trace (app_zeroed 32))"
    by code_simp
  have n: "length (filter is_bluetooth_write (trace (fst (run_tasks 8 9 0 nat
        schedule_without_mpu (app_init 4 (app_zeroed 32), 10))))) = 8"
    by code_simp
  show ?thesis
    using h1 h2 n scale_before_first_vector [OF h1 h2, of 8 9 0 nat 4 10 False]
    by simp
qed

section \<open>The configuration task\<close>

text \<open>
  C4, as stated ("exactly 9 persistence calls; the other 11 edges have no effect") fails.
  With the configuration store present, 20 "increase" edges from period 0 with
  \<open>APP_ADC_MAX_RATE = 9\<close> end at period 9 after 20 calls of \<open>config_write\<close> and 20 gives of
  the configuration semaphore.
\<close>

theorem scenario_C_writes_on_every_edge:
  "sample_period (app_config sd_present_boot) = 0
   \<and> sample_period (app_config
        (vTaskConfig_run 9 0 (replicate 20 (increase_edge False)) sd_present_boot)) = 9
   \<and> length (filter is_config_write (trace
        (vTaskConfig_run 9 0 (replicate 20 (increase_edge False)) sd_present_boot))) = 20
   \<and> length (filter is_config_write (trace
        (vTaskConfig_run 9 0 (replicate 20 (increase_edge False)) sd_present_boot))) \<noteq> 9
   \<and> count_list (trace
        (vTaskConfig_run 9 0 (replicate 20 (increase_edge False)) sd_present_boot))
        (Semaphore_give Sem_config) = 20"
  by code_simp

text \<open>
  C4, amended. For 20 "increase" edges starting at period 0 with \<open>APP_ADC_MAX_RATE = 9\<close>,
  the final period is 9. Every edge, accepted or not, raises the config-changed signal
  (20 gives) and, when the configuration store is present, calls \<open>config_write\<close> (20
  calls, writing the periods 1 to 9 and then eleven times 9; none when the store is
  absent). Only the first 9 edges change the period.
\<close>

theorem scenario_C_increase_edges:
  assumes "sample_period (app_config app) = 0" and "length ws = 20"
  shows "sample_period (app_config (vTaskConfig_run 9 MIN_RATE (map increase_edge ws) app)) = 9
   \<and> filter is_config_write (trace (vTaskConfig_run 9 MIN_RATE (map increase_edge ws) app))
     = filter is_config_write (trace app)
       @ (if config_sd_present app
          then map Config_write ([1, 2, 3, 4, 5, 6, 7, 8, 9] @ replicate 11 9) else [])
   \<and> count_list (trace (vTaskConfig_run 9 MIN_RATE (map increase_edge ws) app))
        (Semaphore_give Sem_config)
     = count_list (trace app) (Semaphore_give Sem_config) + 20"
proof -
  have le: "sample_period (app_config app) \<le> 9"
    using assms(1) by simp
  show ?thesis
    using increase_run [OF le, of MIN_RATE ws] assms written_values
    by simp
qed

theorem scenario_C_increase_edges_witness:
  "sample_period (app_config sd_present_boot) = 0
   \<and> length (replicate 20 False) = 20
   \<and> sample_period (app_config
        (vTaskConfig_run 9 0 (map increase_edge (replicate 20 False)) sd_present_boot)) = 9
   \<and> filter is_config_write (trace
        (vTaskConfig_run 9 0 (map increase_edge (replicate 20 False)) sd_present_boot))
     = map Config_write ([1, 2, 3, 4, 5, 6, 7, 8, 9] @ replicate 11 9)"
proof -
  have h1: "sample_period (app_config sd_present_boot) = 0"
    by code_simp
  have h2: "length (replicate 20 False) = 20"
    by simp
  have t: "trace sd_present_boot = []"
    by code_simp
  have p: "config_sd_present sd_present_boot"
    by code_simp
  show ?thesis
    using h1 h2 t p scenario_C_increase_edges [OF h1 h2, of 0]
    by simp
qed

text \<open>
  C8. Starting from a sample period within \<open>[APP_ADC_MIN_RATE, APP_ADC_MAX_RATE]\<close>, after
  any number of iterations of the configuration task, whatever the buttons show in each
  of them, the sample period is within \<open>[APP_ADC_MIN_RATE, APP_ADC_MAX_RATE]\<close>.
\<close>

theorem sample_period_stays_in_range:
  assumes "MIN_RATE \<le> sample_period (app_config app)"
    and "sample_period (app_config app) \<le> MAX_RATE"
  shows "MIN_RATE \<le> sample_period (app_config
                       (vTaskConfig_run MAX_RATE MIN_RATE (take n inps) app))
         \<and> sample_period (app_config
             (vTaskConfig_run MAX_RATE MIN_RATE (take n inps) app)) \<le> MAX_RATE"
  using vTaskConfig_run_bound [OF assms] .

theorem sample_period_stays_in_range_witness:
  "(0 :: int) \<le> sample_period (app_config sd_present_boot)
   \<and> sample_period (app_config sd_present_boot) \<le> 9
   \<and> sample_period (app_config (vTaskConfig_run 9 0
        (take 1 [decrease_edge False, increase_edge False]) sd_present_boot)) = 0
   \<and> sample_period (app_config (vTaskConfig_run 9 0
        (take 12 (decrease_edge False # replicate 11 (increase_edge True))) sd_present_boot))
       \<le> 9
   \<and> sample_period (app_config (vTaskConfig_run 9 0
        (take 12 (decrease_edge False # replicate 11 (increase_edge True))) sd_present_boot))
       = 9"
proof -
  have h1: "(0 :: int) \<le> sample_period (app_config sd_present_boot)"
    by code_simp
  have h2: "sample_period (app_config sd_present_boot) \<le> 9"
    by code_simp
  have a: "sample_period (app_config (vTaskConfig_run 9 0
        (take 1 [decrease_edge False, increase_edge False]) sd_present_boot)) = 0"
    by code_simp
  have b: "sample_period (app_config (vTaskConfig_run 9 0
        (take 12 (decrease_edge False # replicate 11 (increase_edge True))) sd_present_boot))
       = 9"
    by code_simp
  show ?thesis
    using h1 h2 a b
      sample_period_stays_in_range [OF h1 h2, of 12
        "decrease_edge False # replicate 11 (increase_edge True)"]
    by simp
qed

section \<open>Reloading the configuration\<close>

text \<open>
  C9. When \<open>vTaskADC\<close> finds the configuration semaphore given, the reload recomputes
  the delay from the sample period and takes the semaphore; nothing else of the
  application state changes, so the checked-out buffer, its contents and the fill
  counter are those \<open>adc_update\<close> left.
\<close>

theorem vTaskADC_reload_frame:
  assumes "semaphore_config app"
  shows "vTaskADC_reload ms (app, d)
           = (app\<lparr>semaphore_config := False\<rparr>, ms ((sample_period (app_config app) + 1) * 10))
         \<and> current_buffer (fst (vTaskADC_reload ms (app, d))) = current_buffer app
         \<and> samples_in_buffer (fst (vTaskADC_reload ms (app, d))) = samples_in_buffer app
         \<and> buffer_queue_mem (fst (vTaskADC_reload ms (app, d))) = buffer_queue_mem app
         \<and> data_queue (fst (vTaskADC_reload ms (app, d))) = data_queue app
         \<and> vTaskADC_body SIZE ms s (app, d)
           = ((adc_update SIZE s app)\<lparr>semaphore_config := False\<rparr>,
              ms ((sample_period (app_config app) + 1) * 10))"
  using assms
  by (simp add: vTaskADC_reload_def vTaskADC_body_def rtos_defs DBG_PERIOD_MULTIPLIER_def
      adc_update_semaphore_config adc_update_app_config)

theorem vTaskADC_reload_frame_witness:
  "semaphore_config (vTaskConfig_body 9 0 (increase_edge False) one_buffer_queued)
   \<and> snd (vTaskADC_body 8 nat 5
        (vTaskConfig_body 9 0 (increase_edge False) one_buffer_queued, 10)) = 20
   \<and> current_buffer (fst (vTaskADC_body 8 nat 5
        (vTaskConfig_body 9 0 (increase_edge False) one_buffer_queued, 10))) = Some 1
   \<and> samples_in_buffer (fst (vTaskADC_body 8 nat 5
        (vTaskConfig_body 9 0 (increase_edge False) one_buffer_queued, 10))) = 1"
proof -
  have h: "semaphore_config (vTaskConfig_body 9 0 (increase_edge False) one_buffer_queued)"
    by code_simp
  have p: "sample_period (app_config
             (vTaskConfig_body 9 0 (increase_edge False) one_buffer_queued)) = 1"
    by code_simp
  have c: "current_buffer (adc_update 8 5
             (vTaskConfig_body 9 0 (increase_edge False) one_buffer_queued)) = Some 1"
    by code_simp
  have n: "samples_in_buffer (adc_update 8 5
             (vTaskConfig_body 9 0 (increase_edge False) one_buffer_queued)) = 1"
    by code_simp
  show ?thesis
    using h p c n vTaskADC_reload_frame [OF h, of nat 10 8 5] by simp
qed

end
